theory Spec2Isabelle
  imports Main
begin

section \<open>The source unit\<close>

text \<open>
  The repository's one source file, \<^verbatim>\<open>BlackboxPlayer/Utilities/BridgingHeader.h\<close>,
  line by line as it stands (19 lines; the last one has no newline after it).
\<close>

definition BridgingHeader_h :: "string list" where
  "BridgingHeader_h =
    [''//'',
     ''//  BridgingHeader.h'',
     ''//  BlackboxPlayer'',
     ''//'',
     ''//  Objective-C Bridging Header for FFmpeg and other C libraries'',
     ''//'',
     '''',
     ''#ifndef BridgingHeader_h'',
     ''#define BridgingHeader_h'',
     '''',
     ''// FFmpeg headers'',
     ''#import <libavcodec/avcodec.h>'',
     ''#import <libavformat/avformat.h>'',
     ''#import <libavutil/avutil.h>'',
     ''#import <libavutil/imgutils.h>'',
     ''#import <libswscale/swscale.h>'',
     ''#import <libswresample/swresample.h>'',
     '''',
     ''#endif /* BridgingHeader_h */'']"

section \<open>Reading the lines\<close>

text \<open>
  A line of a C family source is, once its comments are removed, empty, a preprocessor
  directive, or program text. The directives told apart are the four the file uses;
  every other one (\<^verbatim>\<open>#include\<close>, \<^verbatim>\<open>#undef\<close>, \<^verbatim>\<open>#if\<close>, \<^verbatim>\<open>#error\<close>, ...) is kept,
  with its name and its argument, as \<open>Other\<close>.
\<close>

datatype directive =
    Ifndef string
  | Define string string
  | Import string
  | Endif
  | Other string string

datatype line = Blank | Dir directive | Code string

definition is_space :: "char \<Rightarrow> bool" where
  "is_space c = (c = CHR '' '' \<or> c = CHR 0x09)"

definition is_ident_char :: "char \<Rightarrow> bool" where
  "is_ident_char c =
     (c \<in> set ''abcdefghijklmnopqrstuvwxyzABCDEFGHIJKLMNOPQRSTUVWXYZ0123456789_'')"

definition trim :: "string \<Rightarrow> string" where
  "trim t = rev (dropWhile is_space (rev (dropWhile is_space t)))"

text \<open>
  Comment removal. The flag says whether the text starts inside a block comment, and the
  flag returned whether the line ends inside one; a block comment stands for one space, a
  line comment runs to the end of the line.
\<close>

fun strip_comments :: "bool \<Rightarrow> string \<Rightarrow> string \<times> bool" where
  "strip_comments True (c1 # c2 # cs) =
     (if c1 = CHR ''*'' \<and> c2 = CHR ''/''
      then (case strip_comments False cs of (r, b) \<Rightarrow> (CHR '' '' # r, b))
      else strip_comments True (c2 # cs))"
| "strip_comments True cs = ([], True)"
| "strip_comments False (c1 # c2 # cs) =
     (if c1 = CHR ''/'' \<and> c2 = CHR ''/'' then ([], False)
      else if c1 = CHR ''/'' \<and> c2 = CHR ''*'' then strip_comments True cs
      else (case strip_comments False (c2 # cs) of (r, b) \<Rightarrow> (c1 # r, b)))"
| "strip_comments False cs = (cs, False)"

text \<open>The header named by an \<^verbatim>\<open>#import\<close> in its angle form, \<^verbatim>\<open><path>\<close>.\<close>

definition header_name :: "string \<Rightarrow> string option" where
  "header_name a =
     (case a of
        [] \<Rightarrow> None
      | c # r \<Rightarrow>
          if c = CHR ''<'' \<and> CHR ''>'' \<in> set r
          then Some (takeWhile (\<lambda>x. x \<noteq> CHR ''>'') r)
          else None)"

definition parse_directive :: "string \<Rightarrow> directive" where
  "parse_directive r =
     (let r1 = dropWhile is_space r;
          name = takeWhile is_ident_char r1;
          arg = trim (dropWhile is_ident_char r1)
      in if name = ''ifndef'' then Ifndef (takeWhile is_ident_char arg)
         else if name = ''define''
           then Define (takeWhile is_ident_char arg) (trim (dropWhile is_ident_char arg))
         else if name = ''import''
           then (case header_name arg of Some h \<Rightarrow> Import h | None \<Rightarrow> Other name arg)
         else if name = ''endif'' then Endif
         else Other name arg)"

definition parse_line :: "string \<Rightarrow> line" where
  "parse_line t =
     (case trim t of
        [] \<Rightarrow> Blank
      | c # r \<Rightarrow> if c = CHR ''#'' then Dir (parse_directive r) else Code (c # r))"

fun parse_lines :: "bool \<Rightarrow> string list \<Rightarrow> line list" where
  "parse_lines b [] = []"
| "parse_lines b (l # ls) =
     (case strip_comments b l of (t, b') \<Rightarrow> parse_line t # parse_lines b' ls)"

definition parse_file :: "string list \<Rightarrow> line list" where
  "parse_file ls = parse_lines False ls"

text \<open>What a parsed file holds, by kind.\<close>

fun imports_of :: "line list \<Rightarrow> string list" where
  "imports_of [] = []"
| "imports_of (Dir (Import h) # ls) = h # imports_of ls"
| "imports_of (l # ls) = imports_of ls"

fun code_of :: "line list \<Rightarrow> string list" where
  "code_of [] = []"
| "code_of (Code t # ls) = t # code_of ls"
| "code_of (l # ls) = code_of ls"

fun defines_of :: "line list \<Rightarrow> (string \<times> string) list" where
  "defines_of [] = []"
| "defines_of (Dir (Define m b) # ls) = (m, b) # defines_of ls"
| "defines_of (l # ls) = defines_of ls"

fun others_of :: "line list \<Rightarrow> (string \<times> string) list" where
  "others_of [] = []"
| "others_of (Dir (Other n a) # ls) = (n, a) # others_of ls"
| "others_of (l # ls) = others_of ls"

section \<open>Preprocessing a translation unit\<close>

text \<open>
  What the preprocessor has done so far in a translation unit: the macros defined (name
  to replacement text), the header files entered, and the program text passed on to the
  compiler. An item of that text is \<open>Own t\<close>, a line \<open>t\<close> of program text written in a file
  of this repository, or \<open>Ext h d\<close>, a declaration \<open>d\<close> that importing the external header \<open>h\<close>
  made visible.
\<close>

datatype 'd item = Own string | Ext string 'd

record 'd tu_state =
  macros :: "string \<rightharpoonup> string"
  entered :: "string set"
  emitted :: "'d item list"

text \<open>
  The FFmpeg headers are not part of the repository: they are a parameter. Entered under
  a macro environment and a set of files entered before, a header yields its
  declarations (those of the files it includes among them), the macro environment it
  leaves, and the further files it entered. Compilation is taken to go through: a header
  that is not found stops the build and leaves no translation unit to speak of.
\<close>

type_synonym 'd headers =
  "string \<Rightarrow> (string \<rightharpoonup> string) \<Rightarrow> string set
     \<Rightarrow> 'd list \<times> (string \<rightharpoonup> string) \<times> string set"

text \<open>\<^verbatim>\<open>#import <h>\<close>: a file entered before is not entered again.\<close>

definition import_hdr :: "'d headers \<Rightarrow> string \<Rightarrow> 'd tu_state \<Rightarrow> 'd tu_state" where
  "import_hdr ext h s =
     (if h \<in> entered s then s
      else (case ext h (macros s) (insert h (entered s)) of
              (ds, M, E) \<Rightarrow>
                s\<lparr>macros := M,
                  entered := insert h (entered s) \<union> E,
                  emitted := emitted s @ map (Ext h) ds\<rparr>))"

text \<open>
  The stack of open conditionals: one flag for each, saying whether its group is read
  (so it is, and so are all the groups around it).
\<close>

fun active :: "bool list \<Rightarrow> bool" where
  "active [] = True"
| "active (b # bs) = b"

text \<open>
  Running the lines of a file. \<open>None\<close> is a file the preprocessor rejects (an
  \<^verbatim>\<open>#endif\<close> with no conditional open, a conditional left open at the end) or a directive
  outside the four modelled.
\<close>

fun run :: "'d headers \<Rightarrow> line list \<Rightarrow> bool list \<Rightarrow> 'd tu_state \<Rightarrow> 'd tu_state option" where
  "run ext [] stk s = (if stk = [] then Some s else None)"
| "run ext (Blank # ls) stk s = run ext ls stk s"
| "run ext (Code t # ls) stk s =
     run ext ls stk (if active stk then s\<lparr>emitted := emitted s @ [Own t]\<rparr> else s)"
| "run ext (Dir (Ifndef m) # ls) stk s =
     run ext ls ((active stk \<and> macros s m = None) # stk) s"
| "run ext (Dir (Define m b) # ls) stk s =
     run ext ls stk (if active stk then s\<lparr>macros := (macros s)(m \<mapsto> b)\<rparr> else s)"
| "run ext (Dir (Import h) # ls) stk s =
     run ext ls stk (if active stk then import_hdr ext h s else s)"
| "run ext (Dir Endif # ls) stk s =
     (case stk of [] \<Rightarrow> None | b # stk' \<Rightarrow> run ext ls stk' s)"
| "run ext (Dir (Other n a) # ls) stk s = None"

text \<open>Including the bridging header at some point of a translation unit.\<close>

definition include_file :: "'d headers \<Rightarrow> 'd tu_state \<Rightarrow> 'd tu_state option" where
  "include_file ext s = run ext (parse_file BridgingHeader_h) [] s"

text \<open>Including it \<open>n\<close> times in a row.\<close>

fun include_times :: "'d headers \<Rightarrow> nat \<Rightarrow> 'd tu_state \<Rightarrow> 'd tu_state option" where
  "include_times ext 0 s = Some s"
| "include_times ext (Suc n) s =
     (case include_file ext s of None \<Rightarrow> None | Some s' \<Rightarrow> include_times ext n s')"

text \<open>A translation unit before anything was read.\<close>

definition empty_tu :: "'d tu_state" where
  "empty_tu = \<lparr>macros = Map.empty, entered = {}, emitted = []\<rparr>"

text \<open>The six headers, and the items that come from them.\<close>

definition ffmpeg_headers :: "string list" where
  "ffmpeg_headers =
     [''libavcodec/avcodec.h'', ''libavformat/avformat.h'', ''libavutil/avutil.h'',
      ''libavutil/imgutils.h'', ''libswscale/swscale.h'', ''libswresample/swresample.h'']"

fun from_ffmpeg :: "'d item \<Rightarrow> bool" where
  "from_ffmpeg (Own t) = False"
| "from_ffmpeg (Ext h d) = (h \<in> set ffmpeg_headers)"

fun own_items :: "'d item list \<Rightarrow> string list" where
  "own_items [] = []"
| "own_items (Own t # xs) = t # own_items xs"
| "own_items (Ext h d # xs) = own_items xs"

text \<open>
  A stand-in for the headers, to run the model on: each header declares its own name
  and one macro named after it, and enters no further file.
\<close>

definition demo_headers :: "string headers" where
  "demo_headers h M E = ([h], M(h \<mapsto> ''1''), {})"

text \<open>
  A translation unit that imports the six headers itself, with no bridging header in
  between.
\<close>

definition direct_imports :: "'d headers \<Rightarrow> 'd tu_state \<Rightarrow> 'd tu_state option" where
  "direct_imports ext s = run ext (map (\<lambda>h. Dir (Import h)) ffmpeg_headers) [] s"

text \<open>
  The state in which the file's import number \<open>k\<close> (counted from 0) is processed, when
  the file is included where its guard is not defined: the guard has been defined and
  the \<open>k\<close> imports before have been processed (\<open>include_file_split\<close> below).
\<close>

definition before_import :: "'d headers \<Rightarrow> nat \<Rightarrow> 'd tu_state \<Rightarrow> 'd tu_state" where
  "before_import ext k s =
     fold (import_hdr ext) (take k ffmpeg_headers)
       (s\<lparr>macros := (macros s)(''BridgingHeader_h'' \<mapsto> '''')\<rparr>)"

text \<open>The header \<open>h\<close> leaves the macro \<open>m\<close> as it finds it.\<close>

definition keeps_macro :: "'d headers \<Rightarrow> string \<Rightarrow> string \<Rightarrow> bool" where
  "keeps_macro ext h m = (\<forall>M E. fst (snd (ext h M E)) m = M m)"

section \<open>The file as read\<close>

lemma parsed_BridgingHeader_h:
  "parse_file BridgingHeader_h =
     [Blank, Blank, Blank, Blank, Blank, Blank, Blank,
      Dir (Ifndef ''BridgingHeader_h''),
      Dir (Define ''BridgingHeader_h'' ''''),
      Blank, Blank,
      Dir (Import ''libavcodec/avcodec.h''),
      Dir (Import ''libavformat/avformat.h''),
      Dir (Import ''libavutil/avutil.h''),
      Dir (Import ''libavutil/imgutils.h''),
      Dir (Import ''libswscale/swscale.h''),
      Dir (Import ''libswresample/swresample.h''),
      Blank,
      Dir Endif]"
  by (simp add: parse_file_def BridgingHeader_h_def parse_line_def parse_directive_def
      header_name_def trim_def is_space_def is_ident_char_def)

lemma include_file_eq:
  "include_file ext s =
     Some (if macros s ''BridgingHeader_h'' = None
           then fold (import_hdr ext) ffmpeg_headers
                  (s\<lparr>macros := (macros s)(''BridgingHeader_h'' \<mapsto> '''')\<rparr>)
           else s)"
  by (simp add: include_file_def parsed_BridgingHeader_h ffmpeg_headers_def)

section \<open>Importing headers\<close>

lemma import_hdr_entered: "insert h (entered s) \<subseteq> entered (import_hdr ext h s)"
  by (auto simp: import_hdr_def split: prod.splits)

lemma fold_import_entered:
  "entered s \<union> set hs \<subseteq> entered (fold (import_hdr ext) hs s)"
proof (induction hs arbitrary: s)
  case Nil
  show ?case by simp
next
  case (Cons h hs)
  have "insert h (entered s) \<subseteq> entered (import_hdr ext h s)"
    by (rule import_hdr_entered)
  moreover have "entered (import_hdr ext h s) \<union> set hs
      \<subseteq> entered (fold (import_hdr ext) hs (import_hdr ext h s))"
    by (rule Cons.IH)
  ultimately show ?case by auto
qed

lemma fold_import_noop:
  "set hs \<subseteq> entered s \<Longrightarrow> fold (import_hdr ext) hs s = s"
  by (induction hs) (simp_all add: import_hdr_def)

lemma own_items_append: "own_items (xs @ ys) = own_items xs @ own_items ys"
  by (induction xs rule: own_items.induct) simp_all

lemma own_items_from_ffmpeg: "list_all from_ffmpeg xs \<Longrightarrow> own_items xs = []"
  by (induction xs rule: own_items.induct) simp_all

lemma import_hdr_emitted:
  "h \<in> set ffmpeg_headers \<Longrightarrow>
   \<exists>new. emitted (import_hdr ext h s) = emitted s @ new \<and> list_all from_ffmpeg new"
  by (auto simp: import_hdr_def list_all_iff split: prod.splits)

lemma fold_import_emitted:
  "set hs \<subseteq> set ffmpeg_headers \<Longrightarrow>
   \<exists>new. emitted (fold (import_hdr ext) hs s) = emitted s @ new \<and> list_all from_ffmpeg new"
proof (induction hs arbitrary: s)
  case Nil
  show ?case by simp
next
  case (Cons h hs)
  from Cons.prems have h: "h \<in> set ffmpeg_headers" and hs: "set hs \<subseteq> set ffmpeg_headers"
    by simp_all
  obtain n1 where n1: "emitted (import_hdr ext h s) = emitted s @ n1" "list_all from_ffmpeg n1"
    using import_hdr_emitted [OF h] by blast
  obtain n2 where n2: "emitted (fold (import_hdr ext) hs (import_hdr ext h s))
      = emitted (import_hdr ext h s) @ n2" "list_all from_ffmpeg n2"
    using Cons.IH [OF hs] by blast
  have "emitted (fold (import_hdr ext) (h # hs) s) = emitted s @ (n1 @ n2)"
    using n1 n2 by simp
  moreover have "list_all from_ffmpeg (n1 @ n2)"
    using n1 n2 by simp
  ultimately show ?case by blast
qed

lemma import_hdr_macro:
  assumes "\<forall>M E. fst (snd (ext h M E)) m = M m"
  shows "macros (import_hdr ext h s) m = macros s m"
proof -
  have "fst (snd (ext h (macros s) (insert h (entered s)))) m = macros s m"
    using assms by blast
  then show ?thesis
    by (auto simp: import_hdr_def split: prod.splits)
qed

lemma fold_import_macro:
  "\<forall>h\<in>set hs. \<forall>M E. fst (snd (ext h M E)) m = M m \<Longrightarrow>
   macros (fold (import_hdr ext) hs s) m = macros s m"
  by (induction hs arbitrary: s) (simp_all add: import_hdr_macro)

section \<open>Including the file\<close>

lemma include_file_fresh:
  "macros s ''BridgingHeader_h'' = None \<Longrightarrow>
   include_file ext s =
     Some (fold (import_hdr ext) ffmpeg_headers
            (s\<lparr>macros := (macros s)(''BridgingHeader_h'' \<mapsto> '''')\<rparr>))"
  by (simp add: include_file_eq)

lemma include_file_guarded:
  "macros s ''BridgingHeader_h'' = Some b \<Longrightarrow> include_file ext s = Some s"
  by (simp add: include_file_eq)

lemma include_file_emitted:
  "\<exists>s' new. include_file ext s = Some s' \<and> emitted s' = emitted s @ new
     \<and> list_all from_ffmpeg new"
proof (cases "macros s ''BridgingHeader_h''")
  case None
  obtain new where
    "emitted (fold (import_hdr ext) ffmpeg_headers
        (s\<lparr>macros := (macros s)(''BridgingHeader_h'' \<mapsto> '''')\<rparr>))
      = emitted (s\<lparr>macros := (macros s)(''BridgingHeader_h'' \<mapsto> '''')\<rparr>) @ new"
    "list_all from_ffmpeg new"
    using fold_import_emitted [of ffmpeg_headers] by blast
  with None show ?thesis by (simp add: include_file_fresh)
next
  case (Some b)
  then show ?thesis by (simp add: include_file_guarded)
qed

lemma include_file_own:
  "\<exists>s'. include_file ext s = Some s' \<and> own_items (emitted s') = own_items (emitted s)"
proof -
  obtain s' new where "include_file ext s = Some s'" "emitted s' = emitted s @ new"
      "list_all from_ffmpeg new"
    using include_file_emitted by blast
  then show ?thesis by (simp add: own_items_append own_items_from_ffmpeg)
qed

lemma include_times_own:
  "\<exists>s'. include_times ext n s = Some s' \<and> own_items (emitted s') = own_items (emitted s)"
proof (induction n arbitrary: s)
  case 0
  show ?case by simp
next
  case (Suc n)
  obtain s1 where s1: "include_file ext s = Some s1"
      "own_items (emitted s1) = own_items (emitted s)"
    using include_file_own by blast
  obtain s2 where "include_times ext n s1 = Some s2"
      "own_items (emitted s2) = own_items (emitted s1)"
    using Suc.IH by blast
  with s1 show ?case by simp
qed

lemma include_file_again:
  assumes "set ffmpeg_headers \<subseteq> entered s"
  shows "\<exists>s'. include_file ext s = Some s' \<and> emitted s' = emitted s \<and> entered s' = entered s"
proof (cases "macros s ''BridgingHeader_h''")
  case None
  with assms show ?thesis by (simp add: include_file_fresh fold_import_noop)
next
  case (Some b)
  then show ?thesis by (simp add: include_file_guarded)
qed

lemma include_times_again:
  "set ffmpeg_headers \<subseteq> entered s \<Longrightarrow>
   \<exists>s'. include_times ext n s = Some s' \<and> emitted s' = emitted s \<and> entered s' = entered s"
proof (induction n arbitrary: s)
  case 0
  show ?case by simp
next
  case (Suc n)
  obtain s1 where s1: "include_file ext s = Some s1" "emitted s1 = emitted s"
      "entered s1 = entered s"
    using include_file_again [OF Suc.prems] by blast
  then have "set ffmpeg_headers \<subseteq> entered s1" using Suc.prems by simp
  from Suc.IH [OF this] obtain s2 where "include_times ext n s1 = Some s2"
      "emitted s2 = emitted s1" "entered s2 = entered s1"
    by blast
  with s1 show ?case by simp
qed

lemma include_times_guarded:
  "macros s ''BridgingHeader_h'' = Some b \<Longrightarrow> include_times ext n s = Some s"
  by (induction n) (simp_all add: include_file_guarded)

lemma include_file_entered:
  "macros s ''BridgingHeader_h'' = None \<Longrightarrow> include_file ext s = Some s' \<Longrightarrow>
   set ffmpeg_headers \<subseteq> entered s'"
  using fold_import_entered [of "s\<lparr>macros := (macros s)(''BridgingHeader_h'' \<mapsto> '''')\<rparr>"
      ffmpeg_headers ext]
  by (auto simp: include_file_fresh)

lemma demo_emitted:
  "map_option emitted (include_file demo_headers empty_tu) =
     Some [Ext ''libavcodec/avcodec.h'' ''libavcodec/avcodec.h'',
           Ext ''libavformat/avformat.h'' ''libavformat/avformat.h'',
           Ext ''libavutil/avutil.h'' ''libavutil/avutil.h'',
           Ext ''libavutil/imgutils.h'' ''libavutil/imgutils.h'',
           Ext ''libswscale/swscale.h'' ''libswscale/swscale.h'',
           Ext ''libswresample/swresample.h'' ''libswresample/swresample.h'']"
  by (simp add: include_file_eq empty_tu_def ffmpeg_headers_def import_hdr_def
      demo_headers_def)

lemma include_file_split:
  "macros s ''BridgingHeader_h'' = None \<Longrightarrow>
   include_file ext s =
     Some (fold (import_hdr ext) (drop k ffmpeg_headers) (before_import ext k s))"
proof -
  assume "macros s ''BridgingHeader_h'' = None"
  moreover have "fold (import_hdr ext) (take k ffmpeg_headers @ drop k ffmpeg_headers)
        (s\<lparr>macros := (macros s)(''BridgingHeader_h'' \<mapsto> '''')\<rparr>)
      = fold (import_hdr ext) (drop k ffmpeg_headers) (before_import ext k s)"
    unfolding fold_append before_import_def by simp
  ultimately show ?thesis by (simp add: include_file_fresh)
qed

lemma before_import_macro:
  assumes "m \<noteq> ''BridgingHeader_h''"
    and "list_all (\<lambda>h. keeps_macro ext h m) ffmpeg_headers"
  shows "macros (before_import ext k s) m = macros s m"
proof -
  have "\<forall>h\<in>set (take k ffmpeg_headers). \<forall>M E. fst (snd (ext h M E)) m = M m"
    using assms(2) by (auto simp: list_all_iff keeps_macro_def dest: in_set_takeD)
  then have "macros (before_import ext k s) m
      = macros (s\<lparr>macros := (macros s)(''BridgingHeader_h'' \<mapsto> '''')\<rparr>) m"
    unfolding before_import_def by (rule fold_import_macro)
  with assms(1) show ?thesis by simp
qed

lemma include_file_macro:
  assumes "m \<noteq> ''BridgingHeader_h''"
    and "list_all (\<lambda>h. keeps_macro ext h m) ffmpeg_headers"
  shows "\<exists>s'. include_file ext s = Some s' \<and> macros s' m = macros s m"
proof (cases "macros s ''BridgingHeader_h''")
  case None
  have "macros (before_import ext (length ffmpeg_headers) s) m = macros s m"
    using assms by (rule before_import_macro)
  with None show ?thesis
    by (simp add: include_file_fresh before_import_def)
next
  case (Some b)
  then show ?thesis by (simp add: include_file_guarded)
qed

section \<open>The claims\<close>

text \<open>
  C1. The file imports six headers and no more: \<^verbatim>\<open>libavcodec/avcodec.h\<close>,
  \<^verbatim>\<open>libavformat/avformat.h\<close>, \<^verbatim>\<open>libavutil/avutil.h\<close>, \<^verbatim>\<open>libavutil/imgutils.h\<close>,
  \<^verbatim>\<open>libswscale/swscale.h\<close> and \<^verbatim>\<open>libswresample/swresample.h\<close>, in this order. The
  imports read off the file are this list, and the file has no directive besides
  \<^verbatim>\<open>#ifndef\<close>, \<^verbatim>\<open>#define\<close>, \<^verbatim>\<open>#import <...>\<close> and \<^verbatim>\<open>#endif\<close> (so no \<^verbatim>\<open>#include\<close> and
  no import in another form).
\<close>

theorem bridging_header_imports:
  "imports_of (parse_file BridgingHeader_h) =
     [''libavcodec/avcodec.h'', ''libavformat/avformat.h'', ''libavutil/avutil.h'',
      ''libavutil/imgutils.h'', ''libswscale/swscale.h'', ''libswresample/swresample.h'']
   \<and> others_of (parse_file BridgingHeader_h) = []"
  by (simp add: parsed_BridgingHeader_h)

text \<open>
  C2. The file has no logic of its own: no line of it is program text (every line is
  empty, a comment or a directive), so it defines no data structure, function, control
  flow or error handling; and whatever including it in a fresh translation unit passes
  to the compiler comes from one of the six FFmpeg headers, whatever these contain.
\<close>

theorem bridging_header_no_logic:
  "code_of (parse_file BridgingHeader_h) = []
   \<and> (\<exists>s'. include_file ext empty_tu = Some s' \<and> list_all from_ffmpeg (emitted s'))"
proof -
  obtain s' new where "include_file ext (empty_tu :: 'a tu_state) = Some s'"
      "emitted s' = emitted (empty_tu :: 'a tu_state) @ new" "list_all from_ffmpeg new"
    using include_file_emitted by blast
  then show ?thesis
    by (simp add: parsed_BridgingHeader_h empty_tu_def)
qed

theorem bridging_header_no_logic_witness:
  "\<exists>s'. include_file demo_headers empty_tu = Some s'
     \<and> length (emitted s') = 6 \<and> list_all from_ffmpeg (emitted s')"
  using bridging_header_no_logic [of demo_headers] demo_emitted by auto

text \<open>
  C4. The file defines and changes no data: included at any point of a translation
  unit, it succeeds, leaves what was passed to the compiler before as it was, adds only
  declarations that come from the six FFmpeg headers, and adds no program text of this
  repository.
\<close>

theorem bridging_header_defines_nothing:
  "\<exists>s' new. include_file ext s = Some s' \<and> emitted s' = emitted s @ new
     \<and> list_all from_ffmpeg new \<and> own_items (emitted s') = own_items (emitted s)"
proof -
  obtain s' new where *: "include_file ext s = Some s'" "emitted s' = emitted s @ new"
      "list_all from_ffmpeg new"
    using include_file_emitted by blast
  then have "own_items (emitted s') = own_items (emitted s)"
    by (simp add: own_items_append own_items_from_ffmpeg)
  with * show ?thesis by blast
qed

theorem bridging_header_defines_nothing_witness:
  "\<exists>s' new. include_file demo_headers (empty_tu\<lparr>emitted := [Own ''int x;'']\<rparr>) = Some s'
     \<and> emitted s' = [Own ''int x;''] @ new \<and> length new = 6
     \<and> own_items (emitted s') = [''int x;'']"
proof -
  let ?s = "empty_tu\<lparr>emitted := [Own ''int x;'']\<rparr> :: string tu_state"
  obtain s' new where *: "include_file demo_headers ?s = Some s'"
      "emitted s' = emitted ?s @ new" "own_items (emitted s') = own_items (emitted ?s)"
    using bridging_header_defines_nothing [of demo_headers ?s] by blast
  have "map_option (length \<circ> emitted) (include_file demo_headers ?s) = Some 7"
    by (simp add: include_file_eq empty_tu_def ffmpeg_headers_def import_hdr_def
        demo_headers_def)
  with * have "length new = 6" by simp
  with * show ?thesis by auto
qed

text \<open>
  C5. The file's only interface is its six imports: with the empty and comment lines
  left out, the file is the include guard around the six \<^verbatim>\<open>#import\<close> lines and nothing
  else. It has no line of program text, hence no entry point, protocol, file format or
  stored state of its own.
\<close>

theorem bridging_header_interface:
  "filter (\<lambda>l. l \<noteq> Blank) (parse_file BridgingHeader_h) =
     [Dir (Ifndef ''BridgingHeader_h''),
      Dir (Define ''BridgingHeader_h'' ''''),
      Dir (Import ''libavcodec/avcodec.h''),
      Dir (Import ''libavformat/avformat.h''),
      Dir (Import ''libavutil/avutil.h''),
      Dir (Import ''libavutil/imgutils.h''),
      Dir (Import ''libswscale/swscale.h''),
      Dir (Import ''libswresample/swresample.h''),
      Dir Endif]"
  by (simp add: parsed_BridgingHeader_h)

text \<open>
  C6. The file leaves what the FFmpeg headers declare, their error codes and return
  conventions among it, as the headers give it: including the file never fails, and it
  does what importing the six headers directly does, once the guard is defined; where
  the guard is defined already it does nothing. Nothing is wrapped, redefined or added
  in between.
\<close>

theorem bridging_header_transparent:
  "include_file ext s =
     (if macros s ''BridgingHeader_h'' = None
      then direct_imports ext (s\<lparr>macros := (macros s)(''BridgingHeader_h'' \<mapsto> '''')\<rparr>)
      else Some s)"
  by (simp add: include_file_eq direct_imports_def ffmpeg_headers_def)

text \<open>
  C7. The file declares and creates no thread, lock, queue or shared variable: such a
  construct would be program text of the file, and however often the file is included,
  it succeeds and the program text of this repository in the translation unit is what
  it was before.
\<close>

theorem bridging_header_no_own_text:
  "\<exists>s'. include_times ext n s = Some s' \<and> own_items (emitted s') = own_items (emitted s)"
  by (rule include_times_own)

text \<open>
  C8. Including the file is idempotent: including it \<open>n + 1\<close> times in a row succeeds,
  and leaves the declarations passed to the compiler, and the headers entered, as
  including it once does.
\<close>

theorem bridging_header_idempotent:
  "\<exists>s1 sn. include_file ext s = Some s1 \<and> include_times ext (Suc n) s = Some sn
     \<and> emitted sn = emitted s1 \<and> entered sn = entered s1"
proof (cases "macros s ''BridgingHeader_h''")
  case None
  obtain s1 where s1: "include_file ext s = Some s1" by (simp add: include_file_eq)
  from include_file_entered [OF None s1] have "set ffmpeg_headers \<subseteq> entered s1" .
  from include_times_again [OF this] obtain sn where
    "include_times ext n s1 = Some sn" "emitted sn = emitted s1" "entered sn = entered s1"
    by blast
  with s1 show ?thesis by simp
next
  case (Some b)
  then have "include_file ext s = Some s" "include_times ext n s = Some s"
    by (simp_all add: include_file_guarded include_times_guarded)
  then show ?thesis by simp
qed

theorem bridging_header_idempotent_witness:
  "\<exists>s1 sn. include_file demo_headers empty_tu = Some s1
     \<and> include_times demo_headers 3 empty_tu = Some sn
     \<and> emitted sn = emitted s1 \<and> length (emitted s1) = 6"
  using bridging_header_idempotent [of demo_headers empty_tu 2] demo_emitted
  by (auto simp: numeral_3_eq_3)

text \<open>
  C9. The only macro the file defines is its guard \<^verbatim>\<open>BridgingHeader_h\<close> (with an empty
  replacement), and it has no \<^verbatim>\<open>#undef\<close> or other directive. So for a macro \<open>m\<close> other
  than the guard that the six headers leave as they find it, every one of the six
  imports is processed with \<open>m\<close> as it was before the file, and so is the code after the
  file.
\<close>

theorem bridging_header_macros:
  "defines_of (parse_file BridgingHeader_h) = [(''BridgingHeader_h'', '''')]
   \<and> others_of (parse_file BridgingHeader_h) = []
   \<and> (m \<noteq> ''BridgingHeader_h'' \<and> list_all (\<lambda>h. keeps_macro ext h m) ffmpeg_headers
        \<longrightarrow> (\<forall>k. macros (before_import ext k s) m = macros s m)
          \<and> (\<exists>s'. include_file ext s = Some s' \<and> macros s' m = macros s m))"
  by (simp add: parsed_BridgingHeader_h before_import_macro include_file_macro)

theorem bridging_header_macros_witness:
  "''NDEBUG'' \<noteq> ''BridgingHeader_h''
   \<and> list_all (\<lambda>h. keeps_macro demo_headers h ''NDEBUG'') ffmpeg_headers
   \<and> macros (before_import demo_headers 3
        (empty_tu\<lparr>macros := [''NDEBUG'' \<mapsto> ''1'']\<rparr>)) ''NDEBUG'' = Some ''1''
   \<and> (\<exists>s'. include_file demo_headers (empty_tu\<lparr>macros := [''NDEBUG'' \<mapsto> ''1'']\<rparr>) = Some s'
        \<and> macros s' ''NDEBUG'' = Some ''1'')"
proof -
  have a: "''NDEBUG'' \<noteq> ''BridgingHeader_h''" by simp
  have b: "list_all (\<lambda>h. keeps_macro demo_headers h ''NDEBUG'') ffmpeg_headers"
    by (simp add: keeps_macro_def demo_headers_def ffmpeg_headers_def)
  have c: "macros (empty_tu\<lparr>macros := [''NDEBUG'' \<mapsto> ''1'']\<rparr> :: string tu_state) ''NDEBUG''
      = Some ''1''"
    by simp
  show ?thesis
    using a b c
      bridging_header_macros [of "''NDEBUG''" demo_headers
        "empty_tu\<lparr>macros := [''NDEBUG'' \<mapsto> ''1'']\<rparr>"]
    by simp
qed

end
